theory Spec2Isabelle
  imports Main "HOL-Library.Sublist"
begin

section \<open>Text\<close>

text \<open>
  A Python \<open>str\<close> is modelled as a \<open>string\<close>; a \<open>char\<close> stands for the code point of
  the same number, so the model covers text within U+0000..U+00FF.  The character
  classes below are those of \<open>str.isspace\<close>, of \<open>\d\<close> and of \<open>\w\<close> on that range.
  Integers are unbounded, and the interpreter's limit on the length of a decimal
  literal given to \<open>int()\<close> is taken to be switched off.
\<close>

definition code :: "char \<Rightarrow> nat" where
  "code c = of_char c"

definition is_space :: "char \<Rightarrow> bool" where
  "is_space c = (code c \<in> set [9, 10, 11, 12, 13, 28, 29, 30, 31, 32, 133, 160])"

definition is_digit :: "char \<Rightarrow> bool" where
  "is_digit c = (48 \<le> code c \<and> code c \<le> 57)"

definition is_word :: "char \<Rightarrow> bool" where
  "is_word c = (let n = code c in
     (48 \<le> n \<and> n \<le> 57) \<or> (65 \<le> n \<and> n \<le> 90) \<or> n = 95 \<or> (97 \<le> n \<and> n \<le> 122)
     \<or> n \<in> set [170, 178, 179, 181, 185, 186, 188, 189, 190]
     \<or> (192 \<le> n \<and> n \<le> 214) \<or> (216 \<le> n \<and> n \<le> 246) \<or> 248 \<le> n)"

text \<open>\<open>str.lower\<close>, one character at a time.\<close>

definition lower_char :: "char \<Rightarrow> char" where
  "lower_char c = (let n = code c in
     if (65 \<le> n \<and> n \<le> 90) \<or> (192 \<le> n \<and> n \<le> 222 \<and> n \<noteq> 215)
     then char_of (n + 32) else c)"

definition lower :: "string \<Rightarrow> string" where
  "lower s = map lower_char s"

text \<open>\<open>str.strip()\<close> with no argument.\<close>

definition strip :: "string \<Rightarrow> string" where
  "strip s = rev (dropWhile is_space (rev (dropWhile is_space s)))"

text \<open>\<open>s.split(c)\<close> for a one-character separator: never an empty list.\<close>

fun split :: "char \<Rightarrow> string \<Rightarrow> string list" where
  "split c [] = [[]]"
| "split c (x # xs) =
     (if x = c then [] # split c xs
      else (case split c xs of [] \<Rightarrow> [[x]] | w # ws \<Rightarrow> (x # w) # ws))"

text \<open>\<open>sep.join(parts)\<close>.\<close>

fun join :: "string \<Rightarrow> string list \<Rightarrow> string" where
  "join sep [] = []"
| "join sep [w] = w"
| "join sep (w # ws) = w @ sep @ join sep ws"

text \<open>\<open>sub in s\<close>.\<close>

fun contains :: "string \<Rightarrow> string \<Rightarrow> bool" where
  "contains sub [] = (sub = [])"
| "contains sub (x # xs) = (prefix sub (x # xs) \<or> contains sub xs)"

text \<open>The value of a run of decimal digits.\<close>

definition digit_value :: "char \<Rightarrow> int" where
  "digit_value c = int (code c) - 48"

definition int_of_digits :: "string \<Rightarrow> int" where
  "int_of_digits ds = foldl (\<lambda>a c. 10 * a + digit_value c) 0 ds"

text \<open>
  \<open>int(s)\<close> on a \<open>str\<close>, with \<open>None\<close> for \<open>ValueError\<close>: surrounding blanks are dropped
  (the blanks \<open>int\<close> accepts, which leave out U+001C..U+001F), then an optional sign
  and groups of digits separated by single underscores.
\<close>

definition int_space :: "char \<Rightarrow> bool" where
  "int_space c = (code c \<in> set [9, 10, 11, 12, 13, 32, 133, 160])"

definition unsigned_int :: "string \<Rightarrow> int option" where
  "unsigned_int s = (let groups = split (CHR ''_'') s in
     if list_all (\<lambda>g. g \<noteq> [] \<and> list_all is_digit g) groups
     then Some (int_of_digits (concat groups)) else None)"

definition py_int :: "string \<Rightarrow> int option" where
  "py_int s = (case rev (dropWhile int_space (rev (dropWhile int_space s))) of
       [] \<Rightarrow> None
     | x # xs \<Rightarrow>
         if x = CHR ''+'' then unsigned_int xs
         else if x = CHR ''-'' then map_option uminus (unsigned_int xs)
         else unsigned_int (x # xs))"

text \<open>\<open>str(n)\<close> for a non-negative integer.\<close>

fun str_of_nat :: "nat \<Rightarrow> string" where
  "str_of_nat n =
     (if n < 10 then [char_of (48 + n)]
      else str_of_nat (n div 10) @ [char_of (48 + n mod 10)])"

declare str_of_nat.simps [simp del]

section \<open>Regular expressions\<close>

text \<open>
  The fragment of \<open>re\<close> the program uses, with the backtracking order of the library:
  a position is the character before it (if any) and the text after it, and
  \<open>matches r q\<close> lists the positions at which a match of \<open>r\<close> starting at \<open>q\<close> can end,
  the one the library tries first at the head.  \<open>Dot\<close> is \<open>.\<close> under \<open>re.DOTALL\<close>.
\<close>

datatype regex =
    Eps
  | Chr char
  | Digit
  | Space
  | Dot
  | WordB
  | Seq regex regex
  | Star regex
  | LazyStar regex

type_synonym pos = "char option \<times> string"

definition word_before :: "pos \<Rightarrow> bool" where
  "word_before q = (case fst q of None \<Rightarrow> False | Some c \<Rightarrow> is_word c)"

definition word_after :: "pos \<Rightarrow> bool" where
  "word_after q = (case snd q of [] \<Rightarrow> False | c # _ \<Rightarrow> is_word c)"

function (sequential) matches :: "regex \<Rightarrow> pos \<Rightarrow> pos list" where
  "matches Eps q = [q]"
| "matches WordB q = (if word_before q \<noteq> word_after q then [q] else [])"
| "matches (Seq r1 r2) q = concat (map (matches r2) (matches r1 q))"
| "matches (Star r) q =
     concat (map (matches (Star r))
       (filter (\<lambda>q'. length (snd q') < length (snd q)) (matches r q))) @ [q]"
| "matches (LazyStar r) q =
     q # concat (map (matches (LazyStar r))
       (filter (\<lambda>q'. length (snd q') < length (snd q)) (matches r q)))"
| "matches (Chr c) (p, x # xs) = (if x = c then [(Some x, xs)] else [])"
| "matches Digit (p, x # xs) = (if is_digit x then [(Some x, xs)] else [])"
| "matches Space (p, x # xs) = (if is_space x then [(Some x, xs)] else [])"
| "matches Dot (p, x # xs) = [(Some x, xs)]"
| "matches _ (p, []) = []"
  by pat_completeness auto
termination
  by (relation "measures [\<lambda>(r, q). size r, \<lambda>(r, q). length (snd q)]") auto

declare matches.simps(4,5) [simp del]

definition Plus :: "regex \<Rightarrow> regex" where
  "Plus r = Seq r (Star r)"

text \<open>A literal string, as a pattern.\<close>

fun lit :: "string \<Rightarrow> regex" where
  "lit [] = Eps"
| "lit (c # cs) = Seq (Chr c) (lit cs)"

text \<open>The text between a position and a later one.\<close>

definition consumed :: "pos \<Rightarrow> pos \<Rightarrow> string" where
  "consumed q q' = take (length (snd q) - length (snd q')) (snd q)"

text \<open>
  \<open>re.search(r, s)\<close>: the leftmost start that has a match, and there the match tried
  first.  The result is \<open>m.group()\<close>, \<open>None\<close> when nothing matches.
\<close>

fun search_from :: "regex \<Rightarrow> pos \<Rightarrow> string option" where
  "search_from r (p, []) =
     (case matches r (p, []) of [] \<Rightarrow> None | q' # _ \<Rightarrow> Some (consumed (p, []) q'))"
| "search_from r (p, x # xs) =
     (case matches r (p, x # xs) of
        [] \<Rightarrow> search_from r (Some x, xs)
      | q' # _ \<Rightarrow> Some (consumed (p, x # xs) q'))"

definition search :: "regex \<Rightarrow> string \<Rightarrow> string option" where
  "search r s = search_from r (None, s)"

text \<open>
  \<open>re.search\<close> for a pattern \<open>pre(grp)post\<close> with one capturing group: the result is
  \<open>m.group(1)\<close>.
\<close>

definition group_at :: "regex \<Rightarrow> regex \<Rightarrow> regex \<Rightarrow> pos \<Rightarrow> string list" where
  "group_at pre grp post q =
     concat (map (\<lambda>q1. concat (map (\<lambda>q2. map (\<lambda>q3. consumed q1 q2) (matches post q2))
                                      (matches grp q1)))
                 (matches pre q))"

fun search_group_from :: "regex \<Rightarrow> regex \<Rightarrow> regex \<Rightarrow> pos \<Rightarrow> string option" where
  "search_group_from pre grp post (p, []) =
     (case group_at pre grp post (p, []) of [] \<Rightarrow> None | g # _ \<Rightarrow> Some g)"
| "search_group_from pre grp post (p, x # xs) =
     (case group_at pre grp post (p, x # xs) of
        [] \<Rightarrow> search_group_from pre grp post (Some x, xs)
      | g # _ \<Rightarrow> Some g)"

definition search_group :: "regex \<Rightarrow> regex \<Rightarrow> regex \<Rightarrow> string \<Rightarrow> string option" where
  "search_group pre grp post s = search_group_from pre grp post (None, s)"

text \<open>
  \<open>re.findall(r, s)\<close> for a pattern without groups: the matches from left to right,
  each search resuming where the last match ended (one character further after an
  empty match).
\<close>

function findall_from :: "regex \<Rightarrow> pos \<Rightarrow> string list" where
  "findall_from r (p, s) =
     (case matches r (p, s) of
        [] \<Rightarrow> (case s of [] \<Rightarrow> [] | x # xs \<Rightarrow> findall_from r (Some x, xs))
      | q' # _ \<Rightarrow>
          if length (snd q') < length s then consumed (p, s) q' # findall_from r q'
          else [] # (case s of [] \<Rightarrow> [] | x # xs \<Rightarrow> findall_from r (Some x, xs)))"
  by pat_completeness auto
termination
  by (relation "measure (\<lambda>(r, q). length (snd q))") auto

declare findall_from.simps [simp del]

definition findall :: "regex \<Rightarrow> string \<Rightarrow> string list" where
  "findall r s = findall_from r (None, s)"

section \<open>Region of an address\<close>

text \<open>
  \<open>parse_region\<close>: the argument is the address text or \<open>None\<close>; an empty string and
  \<open>None\<close> are both false in the test \<open>if full_address\<close>.
\<close>

definition parse_region :: "string option \<Rightarrow> string option" where
  "parse_region full_address =
     (case full_address of
        None \<Rightarrow> Some []
      | Some a \<Rightarrow>
          if a \<noteq> [] then
            (let address_parts = split (CHR '','') a in
             if length address_parts \<ge> 2
             then Some (join '', '' [strip (address_parts ! (length address_parts - 2)),
                                      strip (last address_parts)])
             else Some [])
          else Some [])"

section \<open>Parsed documents\<close>

text \<open>
  The tree \<open>BeautifulSoup(html, "html.parser")\<close> builds: strings, and tags with a
  name, attributes and contents.  The parser keeps a comment, and the text inside a
  \<open>script\<close>, \<open>style\<close>, \<open>template\<close> or ruby annotation element, as strings of classes
  of their own (\<open>Special\<close> here); every other string is a \<open>Text\<close>.  A document is the
  list of its top-level nodes.  The functions of this section are those of the
  library, as far as the program calls them.
\<close>

datatype node = Text string | Special string | Tag string "(string \<times> string) list" "node list"

type_synonym soup = "node list"

text \<open>
  \<open>tag.text\<close>, for a tag that is not itself one of the elements named above (the
  program takes the text of no other): the ordinary strings below the tag, in
  document order.
\<close>

fun get_text :: "node \<Rightarrow> string" where
  "get_text (Text t) = t"
| "get_text (Special t) = []"
| "get_text (Tag n a cs) = concat (map get_text cs)"

text \<open>
  \<open>tag.string\<close>: the only string below the tag, of whatever class, if the contents
  are a single chain.
\<close>

fun string_of :: "node \<Rightarrow> string option" where
  "string_of (Text t) = Some t"
| "string_of (Special t) = Some t"
| "string_of (Tag n a [c]) = string_of c"
| "string_of (Tag n a cs) = None"

fun attrs :: "node \<Rightarrow> (string \<times> string) list" where
  "attrs (Tag n a cs) = a"
| "attrs _ = []"

fun name :: "node \<Rightarrow> string option" where
  "name (Tag n a cs) = Some n"
| "name _ = None"

text \<open>The values of a \<open>class\<close> attribute: the maximal runs without blanks.\<close>

fun fields :: "string \<Rightarrow> string list" where
  "fields [] = [[]]"
| "fields (x # xs) =
     (if is_space x then [] # fields xs
      else (case fields xs of [] \<Rightarrow> [[x]] | w # ws \<Rightarrow> (x # w) # ws))"

definition tokens :: "string \<Rightarrow> string list" where
  "tokens s = filter (\<lambda>w. w \<noteq> []) (fields s)"

text \<open>
  The keyword filters of \<open>find\<close>: \<open>attr_is k v\<close> is \<open>attrs={k: v}\<close> for a single-valued
  attribute, \<open>class_is v\<close> is \<open>class_=v\<close> (one of the classes is \<open>v\<close>, or the classes
  joined by blanks are \<open>v\<close>), \<open>string_is v\<close> is \<open>string=v\<close> for a text and
  \<open>string_search r\<close> is \<open>string=re.compile(r)\<close>.  A missing attribute matches only
  an empty text, and an empty \<open>string=\<close> is no filter.
\<close>

definition attr_is :: "string \<Rightarrow> string \<Rightarrow> node \<Rightarrow> bool" where
  "attr_is k v t = (case map_of (attrs t) k of None \<Rightarrow> v = [] | Some w \<Rightarrow> w = v)"

definition class_is :: "string \<Rightarrow> node \<Rightarrow> bool" where
  "class_is v t =
     (case map_of (attrs t) ''class'' of
        None \<Rightarrow> v = []
      | Some w \<Rightarrow> v \<in> set (tokens w) \<or> join '' '' (tokens w) = v)"

definition string_is :: "string \<Rightarrow> node \<Rightarrow> bool" where
  "string_is v t = (v = [] \<or> string_of t = Some v)"

definition string_search :: "regex \<Rightarrow> node \<Rightarrow> bool" where
  "string_search r t = (case string_of t of None \<Rightarrow> False | Some w \<Rightarrow> search r w \<noteq> None)"

definition named :: "string \<Rightarrow> node \<Rightarrow> bool" where
  "named n t = (name t = Some n)"

text \<open>
  \<open>find\<close>: the first tag in document order that passes the filter, here together with
  the siblings that follow it.
\<close>

fun find_in :: "(node \<Rightarrow> bool) \<Rightarrow> node list \<Rightarrow> (node \<times> node list) option" where
  "find_in P [] = None"
| "find_in P (Text t # rest) = find_in P rest"
| "find_in P (Special t # rest) = find_in P rest"
| "find_in P (Tag n a cs # rest) =
     (if P (Tag n a cs) then Some (Tag n a cs, rest)
      else (case find_in P cs of Some r \<Rightarrow> Some r | None \<Rightarrow> find_in P rest))"

definition find :: "(node \<Rightarrow> bool) \<Rightarrow> soup \<Rightarrow> node option" where
  "find P doc = map_option fst (find_in P doc)"

text \<open>\<open>find_next_sibling\<close>, on the siblings that follow a tag.\<close>

fun find_next_sibling :: "(node \<Rightarrow> bool) \<Rightarrow> node list \<Rightarrow> node option" where
  "find_next_sibling P [] = None"
| "find_next_sibling P (Text t # rest) = find_next_sibling P rest"
| "find_next_sibling P (Special t # rest) = find_next_sibling P rest"
| "find_next_sibling P (Tag n a cs # rest) =
     (if P (Tag n a cs) then Some (Tag n a cs) else find_next_sibling P rest)"

text \<open>
  \<open>select('div.property-thumbnail-feature a.property-thumbnail-summary-link[href]')\<close>:
  the flag says whether an ancestor is such a \<open>div\<close>.
\<close>

definition has_class :: "string \<Rightarrow> node \<Rightarrow> bool" where
  "has_class v t = (case map_of (attrs t) ''class'' of None \<Rightarrow> False | Some w \<Rightarrow> v \<in> set (tokens w))"

fun select_links :: "bool \<Rightarrow> node list \<Rightarrow> node list" where
  "select_links inside [] = []"
| "select_links inside (Text t # rest) = select_links inside rest"
| "select_links inside (Special t # rest) = select_links inside rest"
| "select_links inside (Tag n a cs # rest) =
     (if inside \<and> n = ''a'' \<and> has_class ''property-thumbnail-summary-link'' (Tag n a cs)
         \<and> map_of a ''href'' \<noteq> None
      then [Tag n a cs] else [])
     @ select_links (inside \<or> (n = ''div'' \<and> has_class ''property-thumbnail-feature'' (Tag n a cs))) cs
     @ select_links inside rest"

section \<open>Errors\<close>

text \<open>The exceptions the program can meet.\<close>

datatype py_error = RequestException | ValueError | TypeError | KeyError | JSONDecodeError
  | RecursionError

text \<open>\<open>tag[key]\<close>.\<close>

definition item :: "node \<Rightarrow> string \<Rightarrow> py_error + string" where
  "item t k = (case map_of (attrs t) k of None \<Rightarrow> Inl KeyError | Some v \<Rightarrow> Inr v)"

section \<open>JSON decoding\<close>

text \<open>
  \<open>json.loads\<close> with its default settings.  A decoded string is a list of code points,
  since an escape can name a character beyond U+00FF.  A number with a fraction or an
  exponent is kept as its literal text, and an object as its pairs in source order.
  The scanner recurses on nested values; the fuel bounds that recursion, and running
  out of it stands for \<open>RecursionError\<close>.
\<close>

datatype json =
    JNull
  | JBool bool
  | JInt int
  | JFloat string
  | JString "nat list"
  | JArray "json list"
  | JObject "(nat list \<times> json) list"

definition json_ws :: "char \<Rightarrow> bool" where
  "json_ws c = (c = CHR '' '' \<or> c = CHR 0x09 \<or> c = CHR 0x0A \<or> c = CHR 0x0D)"

definition skip_ws :: "string \<Rightarrow> string" where
  "skip_ws s = dropWhile json_ws s"

definition hex_value :: "char \<Rightarrow> nat option" where
  "hex_value c = (let n = code c in
     if 48 \<le> n \<and> n \<le> 57 then Some (n - 48)
     else if 65 \<le> n \<and> n \<le> 70 then Some (n - 55)
     else if 97 \<le> n \<and> n \<le> 102 then Some (n - 87)
     else None)"

definition hex4 :: "char \<Rightarrow> char \<Rightarrow> char \<Rightarrow> char \<Rightarrow> nat option" where
  "hex4 a b c d =
     (case (hex_value a, hex_value b, hex_value c, hex_value d) of
        (Some k, Some l, Some m, Some n) \<Rightarrow> Some (((k * 16 + l) * 16 + m) * 16 + n)
      | _ \<Rightarrow> None)"

text \<open>The character a backslash escape other than \<open>\u\<close> stands for.\<close>

definition backslash :: "char \<Rightarrow> nat option" where
  "backslash e =
     (if e = CHR 0x22 then Some 34 else if e = CHR 0x5C then Some 92
      else if e = CHR ''/'' then Some 47 else if e = CHR ''b'' then Some 8
      else if e = CHR ''f'' then Some 12 else if e = CHR ''n'' then Some 10
      else if e = CHR ''r'' then Some 13 else if e = CHR ''t'' then Some 9
      else None)"

text \<open>
  The low surrogate that follows a high one, if the text goes on with its escape.
\<close>

definition low_surrogate :: "string \<Rightarrow> (nat \<times> string) option" where
  "low_surrogate s =
     (case s of
        b # u # a2 # b2 # c2 # d2 # r \<Rightarrow>
          if b = CHR 0x5C \<and> u = CHR ''u'' then
            (case hex4 a2 b2 c2 d2 of
               Some l \<Rightarrow> if 56320 \<le> l \<and> l \<le> 57343 then Some (l, r) else None
             | None \<Rightarrow> None)
          else None
      | _ \<Rightarrow> None)"

text \<open>
  \<open>scanstring\<close>, from the character after the opening quote: the decoded string and
  the text after the closing quote, \<open>None\<close> for a \<open>JSONDecodeError\<close>.
\<close>

function scanstring :: "string \<Rightarrow> (nat list \<times> string) option" where
  "scanstring [] = None"
| "scanstring (c # cs) =
     (if c = CHR 0x22 then Some ([], cs)
      else if c = CHR 0x5C then
        (case cs of
           [] \<Rightarrow> None
         | e # es \<Rightarrow>
             if e = CHR ''u'' then
               (case es of
                  a # b # c # d # r \<Rightarrow>
                    (case hex4 a b c d of
                       None \<Rightarrow> None
                     | Some h \<Rightarrow>
                         if 55296 \<le> h \<and> h \<le> 56319 then
                           (case low_surrogate r of
                              Some (l, r') \<Rightarrow>
                                if length r' < length r then
                                  map_option (apfst (Cons (65536 + (h - 55296) * 1024 + (l - 56320))))
                                    (scanstring r')
                                else None
                            | None \<Rightarrow> map_option (apfst (Cons h)) (scanstring r))
                         else map_option (apfst (Cons h)) (scanstring r))
                | _ \<Rightarrow> None)
             else
               (case backslash e of
                  None \<Rightarrow> None
                | Some k \<Rightarrow> map_option (apfst (Cons k)) (scanstring es)))
      else if code c < 32 then None
      else map_option (apfst (Cons (code c))) (scanstring cs))"
  by pat_completeness auto
termination
  by (relation "measure length") auto

declare scanstring.simps [simp del]

text \<open>
  The number at the start of a text:
  \<open>(-?(?:0|[1-9]\d*))(\.\d+)?([eE][-+]?\d+)?\<close>.
\<close>

definition match_integer :: "string \<Rightarrow> (string \<times> string) option" where
  "match_integer s =
     (let (sign, t) = (case s of [] \<Rightarrow> ([], []) | c # cs \<Rightarrow> if c = CHR ''-'' then ([c], cs) else ([], s)) in
      case t of
        [] \<Rightarrow> None
      | d # ds \<Rightarrow>
          if d = CHR ''0'' then Some (sign @ [d], ds)
          else if is_digit d then Some (sign @ d # takeWhile is_digit ds, dropWhile is_digit ds)
          else None)"

definition match_frac :: "string \<Rightarrow> string \<times> string" where
  "match_frac s =
     (case s of
        c # d # ds \<Rightarrow>
          if c = CHR ''.'' \<and> is_digit d
          then (c # d # takeWhile is_digit ds, dropWhile is_digit ds) else ([], s)
      | _ \<Rightarrow> ([], s))"

definition match_exp :: "string \<Rightarrow> string \<times> string" where
  "match_exp s =
     (case s of
        [] \<Rightarrow> ([], s)
      | e # t \<Rightarrow>
          if e = CHR ''e'' \<or> e = CHR ''E'' then
            (let (sign, u) = (case t of [] \<Rightarrow> ([], []) | c # cs \<Rightarrow>
                                if c = CHR ''+'' \<or> c = CHR ''-'' then ([c], cs) else ([], t)) in
             case u of
               [] \<Rightarrow> ([], s)
             | d # ds \<Rightarrow>
                 if is_digit d
                 then (e # sign @ d # takeWhile is_digit ds, dropWhile is_digit ds)
                 else ([], s))
          else ([], s))"

definition signed_digits :: "string \<Rightarrow> int" where
  "signed_digits s =
     (case s of [] \<Rightarrow> 0
      | c # cs \<Rightarrow> if c = CHR ''-'' then - int_of_digits cs else int_of_digits s)"

definition match_number :: "string \<Rightarrow> (json \<times> string) option" where
  "match_number s =
     (case match_integer s of
        None \<Rightarrow> None
      | Some (integer, r1) \<Rightarrow>
          (let (frac, r2) = match_frac r1; (exp, r3) = match_exp r2 in
           if frac \<noteq> [] \<or> exp \<noteq> [] then Some (JFloat (integer @ frac @ exp), r3)
           else Some (JInt (signed_digits integer), r3)))"

text \<open>
  \<open>scan_once\<close> with the array and object parsers it calls: the value at the start of
  the text and the text after it.  \<open>array_items\<close> and \<open>object_items\<close> are the loops of
  \<open>JSONArray\<close> and \<open>JSONObject\<close>, entered at a value and at the opening quote of a key.
\<close>

fun scan_once :: "nat \<Rightarrow> string \<Rightarrow> py_error + (json \<times> string)"
  and array_items :: "nat \<Rightarrow> string \<Rightarrow> py_error + (json list \<times> string)"
  and object_items :: "nat \<Rightarrow> string \<Rightarrow> py_error + ((nat list \<times> json) list \<times> string)"
where
  "scan_once 0 s = Inl RecursionError"
| "scan_once (Suc n) s =
     (case s of
        [] \<Rightarrow> Inl JSONDecodeError
      | c # cs \<Rightarrow>
          if c = CHR 0x22 then
            (case scanstring cs of
               None \<Rightarrow> Inl JSONDecodeError
             | Some (u, r) \<Rightarrow> Inr (JString u, r))
          else if c = CHR ''{'' then
            (case skip_ws cs of
               [] \<Rightarrow> Inl JSONDecodeError
             | d # ds \<Rightarrow>
                 if d = CHR ''}'' then Inr (JObject [], ds)
                 else if d = CHR 0x22 then
                   (case object_items n (d # ds) of
                      Inl e \<Rightarrow> Inl e
                    | Inr (ps, r) \<Rightarrow> Inr (JObject ps, r))
                 else Inl JSONDecodeError)
          else if c = CHR ''['' then
            (case skip_ws cs of
               [] \<Rightarrow> Inl JSONDecodeError
             | d # ds \<Rightarrow>
                 if d = CHR '']'' then Inr (JArray [], ds)
                 else
                   (case array_items n (d # ds) of
                      Inl e \<Rightarrow> Inl e
                    | Inr (vs, r) \<Rightarrow> Inr (JArray vs, r)))
          else if prefix ''null'' s then Inr (JNull, drop 4 s)
          else if prefix ''true'' s then Inr (JBool True, drop 4 s)
          else if prefix ''false'' s then Inr (JBool False, drop 5 s)
          else
            (case match_number s of
               Some (v, r) \<Rightarrow> Inr (v, r)
             | None \<Rightarrow>
                 if prefix ''NaN'' s then Inr (JFloat ''NaN'', drop 3 s)
                 else if prefix ''Infinity'' s then Inr (JFloat ''Infinity'', drop 8 s)
                 else if prefix ''-Infinity'' s then Inr (JFloat ''-Infinity'', drop 9 s)
                 else Inl JSONDecodeError))"
| "array_items 0 s = Inl RecursionError"
| "array_items (Suc n) s =
     (case scan_once n s of
        Inl e \<Rightarrow> Inl e
      | Inr (v, r) \<Rightarrow>
          (case skip_ws r of
             [] \<Rightarrow> Inl JSONDecodeError
           | d # ds \<Rightarrow>
               if d = CHR '']'' then Inr ([v], ds)
               else if d = CHR '','' then
                 (case array_items n (skip_ws ds) of
                    Inl e \<Rightarrow> Inl e
                  | Inr (vs, r') \<Rightarrow> Inr (v # vs, r'))
               else Inl JSONDecodeError))"
| "object_items 0 s = Inl RecursionError"
| "object_items (Suc n) s =
     (case s of
        [] \<Rightarrow> Inl JSONDecodeError
      | q # qs \<Rightarrow>
          if q \<noteq> CHR 0x22 then Inl JSONDecodeError
          else
            (case scanstring qs of
               None \<Rightarrow> Inl JSONDecodeError
             | Some (key, r) \<Rightarrow>
                 (case skip_ws r of
                    [] \<Rightarrow> Inl JSONDecodeError
                  | c # cs \<Rightarrow>
                      if c \<noteq> CHR '':'' then Inl JSONDecodeError
                      else
                        (case scan_once n (skip_ws cs) of
                           Inl e \<Rightarrow> Inl e
                         | Inr (v, r') \<Rightarrow>
                             (case skip_ws r' of
                                [] \<Rightarrow> Inl JSONDecodeError
                              | d # ds \<Rightarrow>
                                  if d = CHR ''}'' then Inr ([(key, v)], ds)
                                  else if d = CHR '','' then
                                    (case object_items n (skip_ws ds) of
                                       Inl e \<Rightarrow> Inl e
                                     | Inr (ps, r'') \<Rightarrow> Inr ((key, v) # ps, r''))
                                  else Inl JSONDecodeError)))))"

definition json_loads :: "string \<Rightarrow> py_error + json" where
  "json_loads s =
     (case scan_once (2 * length s + 2) (skip_ws s) of
        Inl e \<Rightarrow> Inl e
      | Inr (v, r) \<Rightarrow> if skip_ws r = [] then Inr v else Inl JSONDecodeError)"

section \<open>Field extraction\<close>

text \<open>
  A value of the three types \<open>extract_value_by_title\<close> can return.
\<close>

datatype pyval = PyNone | PyInt int | PyStr string

text \<open>\<open>get_text_or_default\<close>, with the default left at \<open>None\<close> as every call does.\<close>

definition get_text_or_default :: "node option \<Rightarrow> string option" where
  "get_text_or_default tag = (case tag of Some t \<Rightarrow> Some (strip (get_text t)) | None \<Rightarrow> None)"

text \<open>
  The two patterns of \<open>extract_image_urls\<close> are the same but for the group:
  \<open>window\.MosaicPhotoUrls\s*=\s*\<close>, then \<open>\[.*?\]\<close>, then \<open>;\<close>.
\<close>

definition photo_pre :: regex where
  "photo_pre = Seq (lit ''window.MosaicPhotoUrls'') (Seq (Star Space) (Seq (Chr (CHR ''='')) (Star Space)))"

definition photo_grp :: regex where
  "photo_grp = Seq (Chr (CHR ''['')) (Seq (LazyStar Dot) (Chr (CHR '']'')))"

definition photo_post :: regex where
  "photo_post = Chr (CHR '';'')"

definition pattern :: regex where
  "pattern = Seq photo_pre (Seq photo_grp photo_post)"

definition extract_image_urls :: "soup \<Rightarrow> py_error + json" where
  "extract_image_urls doc =
     (case find (\<lambda>t. named ''script'' t \<and> string_search pattern t) doc of
        Some script_tag \<Rightarrow>
          (case string_of script_tag of
             None \<Rightarrow> Inl TypeError
           | Some text \<Rightarrow>
               (case search_group photo_pre photo_grp photo_post text of
                  Some image_urls_str \<Rightarrow> json_loads image_urls_str
                | None \<Rightarrow> Inr (JArray [])))
      | None \<Rightarrow> Inr (JArray []))"

definition extract_number_from_tag :: "node option \<Rightarrow> py_error + int option" where
  "extract_number_from_tag tag =
     (case tag of
        Some t \<Rightarrow>
          (let text = strip (get_text t); numbers = findall (Plus Digit) text in
           case numbers of
             n # _ \<Rightarrow> (case py_int n of Some i \<Rightarrow> Inr (Some i) | None \<Rightarrow> Inl ValueError)
           | [] \<Rightarrow> Inr None)
      | None \<Rightarrow> Inr None)"

definition extract_value_by_title :: "soup \<Rightarrow> string \<Rightarrow> pyval" where
  "extract_value_by_title doc title =
     (case find_in (\<lambda>t. named ''div'' t \<and> class_is ''carac-title'' t \<and> string_is title t) doc of
        Some (title_tag, siblings) \<Rightarrow>
          (case find_next_sibling (\<lambda>t. named ''div'' t \<and> class_is ''carac-value'' t) siblings of
             Some value_tag \<Rightarrow>
               (let value_text = strip (get_text value_tag) in
                case py_int value_text of Some i \<Rightarrow> PyInt i | None \<Rightarrow> PyStr value_text)
           | None \<Rightarrow> PyNone)
      | None \<Rightarrow> PyNone)"

text \<open>
  \<open>normalize_floor_area\<close>: the pattern is \<open>\b\d+(?:,\d+)*\b\<close>.  The argument is what
  \<open>extract_value_by_title\<close> returned; \<open>re.search\<close> raises \<open>TypeError\<close> on an integer.
\<close>

definition floor_pattern :: regex where
  "floor_pattern = Seq WordB (Seq (Plus Digit) (Seq (Star (Seq (Chr (CHR '','')) (Plus Digit))) WordB))"

definition normalize_floor_area :: "pyval \<Rightarrow> py_error + int option" where
  "normalize_floor_area floor_area =
     (case floor_area of
        PyNone \<Rightarrow> Inr None
      | PyInt i \<Rightarrow> if i \<noteq> 0 then Inl TypeError else Inr None
      | PyStr s \<Rightarrow>
          if s \<noteq> [] then
            (case search floor_pattern s of
               Some value_match \<Rightarrow>
                 (case py_int (filter (\<lambda>c. c \<noteq> CHR '','') value_match) of
                    Some i \<Rightarrow> Inr (Some i)
                  | None \<Rightarrow> Inl ValueError)
             | None \<Rightarrow> Inr None)
          else Inr None)"

definition extract_rent_period_and_type :: "soup \<Rightarrow> string option \<times> string option" where
  "extract_rent_period_and_type doc =
     (case find (\<lambda>t. named ''div'' t \<and> class_is ''price-container'' t) doc of
        Some price_container \<Rightarrow>
          (let price_text = strip (get_text price_container) in
           if contains ''month'' (lower price_text) then (Some ''month'', Some ''rent'')
           else if contains ''week'' (lower price_text) then (Some ''week'', Some ''rent'')
           else (None, None))
      | None \<Rightarrow> (None, None))"

record announcement =
  link :: string
  ref :: "string option"
  rent_period :: "string option"
  type :: "string option"
  title :: "string option"
  address :: "string option"
  region :: "string option"
  description :: "string option"
  images :: json
  price :: "string option"
  bedrooms :: "int option"
  bathrooms :: "int option"
  floor_area :: "int option"
  parking_spaces :: pyval
  additional_features :: pyval
  realtor :: "string option"
  phone :: "string option"
  latitude :: "string option"
  longitude :: "string option"

text \<open>
  The body of \<open>parse_announcement\<close> after the page is fetched and parsed.  The fields
  are computed in the order of the call, so the first exception is the one raised.
\<close>

definition build_announcement :: "string \<Rightarrow> soup \<Rightarrow> py_error + announcement" where
  "build_announcement announcement_url doc =
     (let price_tag = find (\<lambda>t. named ''meta'' t \<and> attr_is ''itemprop'' ''price'' t) doc in
      case extract_image_urls doc of
        Inl e \<Rightarrow> Inl e
      | Inr imgs \<Rightarrow>
      (case (case price_tag of Some t \<Rightarrow> map_sum id Some (item t ''content'') | None \<Rightarrow> Inr None) of
        Inl e \<Rightarrow> Inl e
      | Inr pr \<Rightarrow>
      (case extract_number_from_tag (find (\<lambda>t. named ''div'' t \<and> class_is ''col-lg-3 col-sm-6 cac'' t) doc) of
        Inl e \<Rightarrow> Inl e
      | Inr beds \<Rightarrow>
      (case extract_number_from_tag (find (\<lambda>t. named ''div'' t \<and> class_is ''col-lg-3 col-sm-6 sdb'' t) doc) of
        Inl e \<Rightarrow> Inl e
      | Inr baths \<Rightarrow>
      (case normalize_floor_area (extract_value_by_title doc ''Floor Area'') of
        Inl e \<Rightarrow> Inl e
      | Inr area \<Rightarrow>
          Inr \<lparr> link = announcement_url,
                ref = get_text_or_default (find (\<lambda>t. named ''span'' t \<and> attr_is ''id'' ''ListingDisplayId'' t) doc),
                rent_period = fst (extract_rent_period_and_type doc),
                type = snd (extract_rent_period_and_type doc),
                title = get_text_or_default (find (\<lambda>t. named ''span'' t \<and> attr_is ''data-id'' ''PageTitle'' t) doc),
                address = get_text_or_default (find (\<lambda>t. named ''h2'' t \<and> class_is ''pt-1'' t) doc),
                region = parse_region (get_text_or_default (find (\<lambda>t. named ''h2'' t \<and> class_is ''pt-1'' t) doc)),
                description = get_text_or_default (find (\<lambda>t. named ''div'' t \<and> attr_is ''itemprop'' ''description'' t) doc),
                images = imgs,
                price = pr,
                bedrooms = beds,
                bathrooms = baths,
                floor_area = area,
                parking_spaces = extract_value_by_title doc ''Parking Spaces'',
                additional_features = extract_value_by_title doc ''Additional Features'',
                realtor = get_text_or_default (find (\<lambda>t. named ''h1'' t \<and> class_is ''broker-info__broker-title'' t) doc),
                phone = get_text_or_default (find (\<lambda>t. named ''a'' t \<and> attr_is ''itemprop'' ''telephone'' t) doc),
                latitude = get_text_or_default (find (\<lambda>t. named ''span'' t \<and> attr_is ''id'' ''PropertyLat'' t) doc),
                longitude = get_text_or_default (find (\<lambda>t. named ''span'' t \<and> attr_is ''id'' ''PropertyLng'' t) doc) \<rparr>)))))"

section \<open>Traversal\<close>

text \<open>
  The site answers the \<open>n\<close>-th request of the session (counted from 0) for a URL with
  a page, given here as the parsed document, or the request raises a
  \<open>RequestException\<close> (\<open>None\<close>).  The state of a run is the list built so far, the two
  counters, the URLs requested so far and the seconds slept.  Console output is left
  out.
\<close>

type_synonym web = "nat \<Rightarrow> string \<Rightarrow> soup option"

record run_state =
  announcements :: "announcement list"
  page_count :: nat
  parsed_announcements :: nat
  fetched :: "string list"
  slept :: nat

definition fetch_page :: "web \<Rightarrow> string \<Rightarrow> run_state \<Rightarrow> (py_error + soup) \<times> run_state" where
  "fetch_page site url s =
     (case site (length (fetched s)) url of
        None \<Rightarrow> (Inl RequestException, s\<lparr>fetched := fetched s @ [url]\<rparr>)
      | Some doc \<Rightarrow> (Inr doc, s\<lparr>fetched := fetched s @ [url]\<rparr>))"

definition parse_announcement ::
  "web \<Rightarrow> string \<Rightarrow> run_state \<Rightarrow> (py_error + announcement) \<times> run_state" where
  "parse_announcement site announcement_url s =
     (case fetch_page site announcement_url s of
        (Inl e, s') \<Rightarrow> (Inl e, s')
      | (Inr doc, s') \<Rightarrow> (build_announcement announcement_url doc, s'))"

definition url_prefix :: string where
  "url_prefix = ''https://realtylink.org''"

text \<open>
  The \<open>for\<close> loop over the links of one page: the exception that left it, if any, and
  the state.
\<close>

fun for_links :: "web \<Rightarrow> int \<Rightarrow> node list \<Rightarrow> run_state \<Rightarrow> py_error option \<times> run_state" where
  "for_links site limit [] s = (None, s)"
| "for_links site limit (l # ls) s =
     (if int (length (announcements s)) \<ge> limit then (None, s)
      else
        (case item l ''href'' of
           Inl e \<Rightarrow> (Some e, s)
         | Inr href \<Rightarrow>
             (case parse_announcement site (url_prefix @ href) s of
                (Inl e, s') \<Rightarrow> (Some e, s')
              | (Inr a, s') \<Rightarrow>
                  for_links site limit ls
                    (s'\<lparr>announcements := announcements s' @ [a],
                        parsed_announcements := parsed_announcements s' + 1\<rparr>))))"

definition page_url :: "string \<Rightarrow> nat \<Rightarrow> string" where
  "page_url url n = url @ ''&page='' @ str_of_nat n"

text \<open>
  One pass through the body of the \<open>while\<close> loop of \<open>parse_announcements\<close>: the \<open>try\<close>
  block with its handler.  A \<open>RequestException\<close> is caught and breaks the loop; any
  other exception leaves the function; otherwise the loop goes on to test its
  condition again, also when the \<open>for\<close> loop was left by its own \<open>break\<close>.
\<close>

datatype step = Continue run_state | Break run_state | Raise py_error run_state

definition loop_body :: "web \<Rightarrow> string \<Rightarrow> int \<Rightarrow> run_state \<Rightarrow> step" where
  "loop_body site url limit s =
     (case fetch_page site (page_url url (page_count s + 1)) (s\<lparr>page_count := page_count s + 1\<rparr>) of
        (Inl e, s2) \<Rightarrow> if e = RequestException then Break s2 else Raise e s2
      | (Inr doc, s2) \<Rightarrow>
          (case for_links site limit (select_links False doc) s2 of
             (Some e, s3) \<Rightarrow> if e = RequestException then Break s3 else Raise e s3
           | (None, s3) \<Rightarrow> Continue (s3\<lparr>slept := slept s3 + 1\<rparr>)))"

text \<open>
  The \<open>while\<close> loop.  It need not end, so the result is optional: \<open>None\<close> is a run that
  never returns.  A result is the exception that left the function, if any, and the
  final state.
\<close>

partial_function (option) while_loop ::
  "web \<Rightarrow> string \<Rightarrow> int \<Rightarrow> run_state \<Rightarrow> (py_error option \<times> run_state) option" where
  "while_loop site url limit s =
     (if int (length (announcements s)) < limit then
        (case loop_body site url limit s of
           Continue s' \<Rightarrow> while_loop site url limit s'
         | Break s' \<Rightarrow> Some (None, s')
         | Raise e s' \<Rightarrow> Some (Some e, s'))
      else Some (None, s))"

definition initial_state :: run_state where
  "initial_state = \<lparr> announcements = [], page_count = 0, parsed_announcements = 0,
                      fetched = [], slept = 0 \<rparr>"

text \<open>
  \<open>parse_announcements\<close>: the list returned or the exception raised, with the final
  state of the run.
\<close>

definition parse_announcements ::
  "web \<Rightarrow> string \<Rightarrow> int \<Rightarrow> ((py_error + announcement list) \<times> run_state) option" where
  "parse_announcements site url limit =
     (case while_loop site url limit initial_state of
        None \<Rightarrow> None
      | Some (Some e, s) \<Rightarrow> Some (Inl e, s)
      | Some (None, s) \<Rightarrow> Some (Inr (announcements s), s))"

section \<open>Sample documents\<close>

definition address_only_doc :: soup where
  "address_only_doc = [Tag ''h2'' [(''class'', ''pt-1'')] [Text ''123 Main St'']]"

definition address_only_record :: announcement where
  "address_only_record =
     \<lparr> link = ''u'', ref = None, rent_period = None, type = None, title = None,
       address = Some ''123 Main St'', region = Some [], description = None,
       images = JArray [], price = None, bedrooms = None, bathrooms = None,
       floor_area = None, parking_spaces = PyNone, additional_features = PyNone,
       realtor = None, phone = None, latitude = None, longitude = None \<rparr>"

definition month_doc :: soup where
  "month_doc = [Tag ''div'' [(''class'', ''price-container'')] [Text ''2,000$/month'']]"

definition week_doc :: soup where
  "week_doc = [Tag ''div'' [(''class'', ''price-container'')] [Text '' 450 $ / Week '']]"

definition plain_price_doc :: soup where
  "plain_price_doc = [Tag ''div'' [(''class'', ''price-container'')] [Text ''2,000$'']]"



definition idle_state :: "string \<Rightarrow> nat \<Rightarrow> run_state" where
  "idle_state url k =
     \<lparr> announcements = [], page_count = k, parsed_announcements = 0,
       fetched = map (\<lambda>n. page_url url (Suc n)) [0 ..< k], slept = k \<rparr>"

definition empty_site :: web where
  "empty_site n u = Some []"

definition link_tag :: "string \<Rightarrow> node" where
  "link_tag h = Tag ''a'' [(''class'', ''property-thumbnail-summary-link''), (''href'', h)] []"

definition index_page :: "string list \<Rightarrow> soup" where
  "index_page hs = [Tag ''div'' [(''class'', ''property-thumbnail-feature'')] (map link_tag hs)]"

definition blank_record :: "string \<Rightarrow> announcement" where
  "blank_record u =
     \<lparr> link = u, ref = None, rent_period = None, type = None, title = None,
       address = None, region = Some [], description = None,
       images = JArray [], price = None, bedrooms = None, bathrooms = None,
       floor_area = None, parking_spaces = PyNone, additional_features = PyNone,
       realtor = None, phone = None, latitude = None, longitude = None \<rparr>"

definition five_site :: web where
  "five_site n u =
     (if n = 0 then Some (index_page [''/a'', ''/b'', ''/c'', ''/d'', ''/e''])
      else if n \<le> 5 then Some [] else None)"

definition five_records :: "announcement list" where
  "five_records = map (\<lambda>h. blank_record (url_prefix @ h)) [''/a'', ''/b'', ''/c'', ''/d'', ''/e'']"

definition after_five :: run_state where
  "after_five =
     \<lparr> announcements = five_records, page_count = 1, parsed_announcements = 5,
       fetched = ''base&page=1'' # map (\<lambda>h. url_prefix @ h) [''/a'', ''/b'', ''/c'', ''/d'', ''/e''],
       slept = 1 \<rparr>"

definition three_site :: web where
  "three_site n u = (if n = 0 then Some (index_page [''/a'', ''/b'', ''/c'']) else Some [])"

definition broken_detail_site :: web where
  "broken_detail_site n u =
     (if n = 0 then Some (index_page [''/a'', ''/b'', ''/c''])
      else if n = 1 then Some [] else None)"

definition after_one :: run_state where
  "after_one =
     \<lparr> announcements = [blank_record (url_prefix @ ''/a'')], page_count = 1,
       parsed_announcements = 1, fetched = [''base&page=1'', url_prefix @ ''/a''], slept = 0 \<rparr>"



definition area_title_tag :: node where
  "area_title_tag = Tag ''div'' [(''class'', ''carac-title'')] [Text ''Floor Area'']"

definition area_value_tag :: "string \<Rightarrow> node" where
  "area_value_tag v = Tag ''div'' [(''class'', ''carac-value'')] [Tag ''span'' [] [Text v]]"

definition area_doc :: "string \<Rightarrow> soup" where
  "area_doc v = [Tag ''div'' [(''class'', ''carac-container'')] [area_title_tag, Text '' '', area_value_tag v]]"

definition numeric_area_site :: web where
  "numeric_area_site n u = (if n = 0 then Some (index_page [''/a'']) else Some (area_doc ''850''))"

definition bad_photos_doc :: soup where
  "bad_photos_doc = [Tag ''script'' [] [Special ''window.MosaicPhotoUrls = [photo1, photo2];'']]"

definition bare_price_doc :: soup where
  "bare_price_doc = [Tag ''meta'' [(''itemprop'', ''price'')] []]"










section \<open>Splitting and the region\<close>

lemma split_nonempty: "split c s \<noteq> []"
  by (induction s) (auto split: list.splits)

lemma split_no_sep: "c \<notin> set s \<Longrightarrow> split c s = [s]"
  by (induction s) auto

lemma split_append_sep: "split c (a @ c # b) = split c a @ split c b"
proof (induction a)
  case Nil
  show ?case by simp
next
  case (Cons x a)
  then show ?case
    using split_nonempty [of c a] by (cases "split c a") auto
qed

lemma split_last_two:
  assumes "c \<notin> set a" and "c \<notin> set b" and "h = [] \<or> last h = c"
  shows "\<exists>ws. split c (h @ a @ c # b) = ws @ [a, b]"
proof (cases "h = []")
  case True
  with assms show ?thesis by (simp add: split_append_sep split_no_sep)
next
  case False
  with assms(3) obtain h' where h: "h = h' @ [c]"
    by (metis append_butlast_last_id)
  have "split c (h @ a @ c # b) = split c h' @ [a, b]"
    using assms(1,2) by (simp add: h split_append_sep split_no_sep)
  then show ?thesis by blast
qed

lemma parse_region_not_None: "parse_region a \<noteq> None"
  by (simp add: parse_region_def Let_def split: option.splits)

text \<open>
  C3, as the code has it: an address with a comma yields its last two parts, trimmed
  and joined by a comma and a blank; an address without a comma yields the empty
  string; and an absent address yields the empty string as well, not \<open>None\<close>.
\<close>

theorem parse_region_cases:
  "parse_region None = Some []
   \<and> (CHR '','' \<notin> set t \<longrightarrow> parse_region (Some t) = Some [])
   \<and> (CHR '','' \<notin> set a \<and> CHR '','' \<notin> set b \<and> (h = [] \<or> last h = CHR '','')
        \<longrightarrow> parse_region (Some (h @ a @ '','' @ b)) = Some (strip a @ '', '' @ strip b))"
proof (intro conjI impI)
  show "parse_region None = Some []"
    by (simp add: parse_region_def)
  show "parse_region (Some t) = Some []" if "CHR '','' \<notin> set t"
    using that by (simp add: parse_region_def split_no_sep)
  show "parse_region (Some (h @ a @ '','' @ b)) = Some (strip a @ '', '' @ strip b)"
    if "CHR '','' \<notin> set a \<and> CHR '','' \<notin> set b \<and> (h = [] \<or> last h = CHR '','')"
  proof -
    from that obtain ws where "split (CHR '','') (h @ a @ CHR '','' # b) = ws @ [a, b]"
      using split_last_two by blast
    then show ?thesis
      by (simp add: parse_region_def nth_append)
  qed
qed

theorem parse_region_cases_witness:
  "parse_region (Some ''123 Main St'') = Some []
   \<and> parse_region (Some (''123 Main St,'' @ '' Springfield'' @ '','' @ '' IL'')) = Some ''Springfield, IL''"
  using parse_region_cases [of "''123 Main St''" "'' Springfield''" "'' IL''" "''123 Main St,''"]
  by (simp add: strip_def is_space_def code_def)

text \<open>
  C3 as stated fails on the absent address: the result is a string, not \<open>None\<close>.
\<close>

theorem parse_region_absent_counterexample:
  "parse_region None \<noteq> None"
  by (simp add: parse_region_def)

text \<open>
  C10: \<open>parse_region\<close> returns a string for every argument, the absent address
  included, so the region of every record produced is a string: the empty one when
  the address is absent or has fewer than two parts between commas.
\<close>

theorem region_always_string:
  "parse_region a \<noteq> None
   \<and> parse_region None = Some []
   \<and> (length (split (CHR '','') t) < 2 \<longrightarrow> parse_region (Some t) = Some [])
   \<and> (build_announcement u doc = Inr r \<longrightarrow>
        region r \<noteq> None
        \<and> region r = parse_region (address r)
        \<and> (address r = None \<longrightarrow> region r = Some [])
        \<and> (\<forall>t. address r = Some t \<and> length (split (CHR '','') t) < 2 \<longrightarrow> region r = Some []))"
proof (intro conjI impI)
  show "parse_region a \<noteq> None" by (rule parse_region_not_None)
  show "parse_region None = Some []" by (simp add: parse_region_def)
  show "parse_region (Some t) = Some []" if "length (split (CHR '','') t) < 2"
    using that by (simp add: parse_region_def Let_def)
  assume b: "build_announcement u doc = Inr r"
  then have eq: "region r = parse_region (address r)"
    by (auto simp: build_announcement_def Let_def split: sum.splits)
  show "region r = parse_region (address r)" by (rule eq)
  show "region r \<noteq> None" by (simp add: eq parse_region_not_None)
  show "region r = Some []" if "address r = None"
    using that by (simp add: eq parse_region_def)
  show "\<forall>t. address r = Some t \<and> length (split (CHR '','') t) < 2 \<longrightarrow> region r = Some []"
    by (simp add: eq parse_region_def Let_def)
qed


theorem region_always_string_witness:
  "build_announcement ''u'' address_only_doc = Inr address_only_record
   \<and> region address_only_record = Some []
   \<and> address address_only_record = Some ''123 Main St''
   \<and> length (split (CHR '','') ''123 Main St'') < 2"
proof -
  have b: "build_announcement ''u'' address_only_doc = Inr address_only_record"
    by code_simp
  have a: "address address_only_record = Some ''123 Main St''"
    by (simp add: address_only_record_def)
  have l: "length (split (CHR '','') ''123 Main St'') < 2"
    by simp
  from region_always_string [of _ "''123 Main St''" "''u''" address_only_doc address_only_record]
    b a l show ?thesis by blast
qed

section \<open>Trimming, containment and the rent period\<close>

lemma strip_decomp:
  "\<exists>a b. s = a @ strip s @ b \<and> (\<forall>c\<in>set a. is_space c) \<and> (\<forall>c\<in>set b. is_space c)"
proof -
  define r where "r = dropWhile is_space s"
  have s: "s = takeWhile is_space s @ r"
    by (simp add: r_def)
  have "r = rev (dropWhile is_space (rev r)) @ rev (takeWhile is_space (rev r))"
    by (metis rev_append rev_rev_ident takeWhile_dropWhile_id)
  then have r: "r = strip s @ rev (takeWhile is_space (rev r))"
    by (simp add: strip_def r_def)
  have a: "\<forall>c\<in>set (takeWhile is_space s). is_space c"
    by (auto dest: set_takeWhileD)
  have b: "\<forall>c\<in>set (rev (takeWhile is_space (rev r))). is_space c"
    by (auto dest: set_takeWhileD)
  from s r have "s = takeWhile is_space s @ strip s @ rev (takeWhile is_space (rev r))"
    by simp
  with a b show ?thesis by blast
qed

lemma dropWhile_keeps:
  assumes "m \<noteq> []" and "\<not> P (hd m)"
  shows "\<exists>a'. dropWhile P (a @ m @ b) = a' @ m @ b"
proof (cases "\<exists>x\<in>set a. \<not> P x")
  case True
  then have "dropWhile P (a @ m @ b) = dropWhile P a @ m @ b"
    by (auto simp: dropWhile_append1)
  then show ?thesis by blast
next
  case False
  then have "dropWhile P (a @ m @ b) = dropWhile P (m @ b)"
    by (simp add: dropWhile_append2)
  also have "\<dots> = m @ b"
    using assms by (cases m) auto
  finally show ?thesis by (metis append_Nil)
qed

lemma strip_keeps:
  assumes "m \<noteq> []" and "\<not> is_space (hd m)" and "\<not> is_space (last m)"
  shows "\<exists>a' b'. strip (a @ m @ b) = a' @ m @ b'"
proof -
  obtain a' where a': "dropWhile is_space (a @ m @ b) = a' @ m @ b"
    using dropWhile_keeps [of m is_space a b] assms(1,2) by blast
  have "rev m \<noteq> []" and "\<not> is_space (hd (rev m))"
    using assms by (simp_all add: hd_rev)
  then obtain b' where "dropWhile is_space (rev b @ rev m @ rev a') = b' @ rev m @ rev a'"
    using dropWhile_keeps [of "rev m" is_space "rev b" "rev a'"] by blast
  then have "strip (a @ m @ b) = a' @ m @ rev b'"
    by (simp add: strip_def a')
  then show ?thesis by blast
qed

lemma contains_iff: "contains sub s \<longleftrightarrow> (\<exists>a b. s = a @ sub @ b)"
proof (induction s)
  case Nil
  show ?case by auto
next
  case (Cons x s)
  show ?case
  proof
    assume "contains sub (x # s)"
    then consider "prefix sub (x # s)" | "contains sub s" by auto
    then show "\<exists>a b. x # s = a @ sub @ b"
    proof cases
      case 1
      then obtain b where "x # s = sub @ b" by (auto simp: prefix_def)
      then show ?thesis by (metis append_Nil)
    next
      case 2
      with Cons.IH obtain a b where "s = a @ sub @ b" by blast
      then have "x # s = (x # a) @ sub @ b" by simp
      then show ?thesis by blast
    qed
  next
    assume "\<exists>a b. x # s = a @ sub @ b"
    then obtain a b where ab: "x # s = a @ sub @ b" by blast
    show "contains sub (x # s)"
    proof (cases a)
      case Nil
      with ab have "prefix sub (x # s)" by (metis append_Nil prefixI)
      then show ?thesis by simp
    next
      case (Cons y a')
      with ab have "s = a' @ sub @ b" by simp
      with Cons.IH show ?thesis by auto
    qed
  qed
qed

lemma map_split:
  "map f xs = ys @ zs \<Longrightarrow> \<exists>us vs. xs = us @ vs \<and> map f us = ys \<and> map f vs = zs"
  by (auto simp: map_eq_append_conv)

lemma lower_char_space: "is_space c \<Longrightarrow> lower_char c = c"
  by (auto simp: is_space_def lower_char_def Let_def)

lemma contains_lower_strip:
  assumes w: "w \<noteq> []" "\<forall>c\<in>set w. \<not> is_space c"
  shows "contains w (lower (strip t)) \<longleftrightarrow> (\<exists>a m b. t = a @ m @ b \<and> lower m = w)"
proof
  assume "contains w (lower (strip t))"
  then obtain a' b' where "map lower_char (strip t) = a' @ w @ b'"
    by (auto simp: contains_iff lower_def)
  then obtain a vs where 1: "strip t = a @ vs" and 2: "map lower_char vs = w @ b'"
    using map_split [of lower_char "strip t" a' "w @ b'"] by blast
  from 2 obtain m b where 3: "vs = m @ b" and m: "map lower_char m = w"
    using map_split [of lower_char vs w b'] by blast
  from 1 3 have st: "strip t = a @ m @ b" by simp
  obtain a0 b0 where "t = a0 @ strip t @ b0"
    using strip_decomp by blast
  with st have "t = (a0 @ a) @ m @ (b @ b0)" by simp
  with m show "\<exists>a m b. t = a @ m @ b \<and> lower m = w"
    unfolding lower_def by blast
next
  assume "\<exists>a m b. t = a @ m @ b \<and> lower m = w"
  then obtain a m b where t: "t = a @ m @ b" and m: "map lower_char m = w"
    by (auto simp: lower_def)
  have ns: "\<not> is_space c" if "c \<in> set m" for c
  proof
    assume "is_space c"
    then have "lower_char c = c" by (rule lower_char_space)
    with that m have "c \<in> set w" by force
    with w(2) \<open>is_space c\<close> show False by blast
  qed
  from m w(1) have "m \<noteq> []" by auto
  then have "\<not> is_space (hd m)" "\<not> is_space (last m)"
    using ns by simp_all
  with \<open>m \<noteq> []\<close> obtain a' b' where "strip t = a' @ m @ b'"
    unfolding t using strip_keeps by blast
  then have "lower (strip t) = map lower_char a' @ w @ map lower_char b'"
    by (simp add: lower_def m)
  then show "contains w (lower (strip t))"
    unfolding contains_iff by blast
qed

text \<open>
  C6: the text of the price region decides the pair.  If it contains \<open>month\<close> in any
  letter case the pair is \<open>month\<close>, \<open>rent\<close>; otherwise, if it contains \<open>week\<close> in
  any letter case, the pair is \<open>week\<close>, \<open>rent\<close>; otherwise both are \<open>None\<close>, as they are
  when the document has no price region.
\<close>

theorem rent_classification:
  "(find (\<lambda>t. named ''div'' t \<and> class_is ''price-container'' t) doc = None \<longrightarrow>
       extract_rent_period_and_type doc = (None, None))
   \<and> (find (\<lambda>t. named ''div'' t \<and> class_is ''price-container'' t) doc = Some pc \<longrightarrow>
        ((\<exists>a m b. get_text pc = a @ m @ b \<and> lower m = ''month'') \<longrightarrow>
           extract_rent_period_and_type doc = (Some ''month'', Some ''rent''))
        \<and> (\<not> (\<exists>a m b. get_text pc = a @ m @ b \<and> lower m = ''month'')
             \<and> (\<exists>a m b. get_text pc = a @ m @ b \<and> lower m = ''week'') \<longrightarrow>
           extract_rent_period_and_type doc = (Some ''week'', Some ''rent''))
        \<and> (\<not> (\<exists>a m b. get_text pc = a @ m @ b \<and> lower m = ''month'')
             \<and> \<not> (\<exists>a m b. get_text pc = a @ m @ b \<and> lower m = ''week'') \<longrightarrow>
           extract_rent_period_and_type doc = (None, None)))"
proof -
  have month: "contains ''month'' (lower (strip t)) \<longleftrightarrow> (\<exists>a m b. t = a @ m @ b \<and> lower m = ''month'')" for t
    by (rule contains_lower_strip) (simp_all add: is_space_def code_def)
  have week: "contains ''week'' (lower (strip t)) \<longleftrightarrow> (\<exists>a m b. t = a @ m @ b \<and> lower m = ''week'')" for t
    by (rule contains_lower_strip) (simp_all add: is_space_def code_def)
  show ?thesis
    unfolding extract_rent_period_and_type_def Let_def month week
    by (simp split: option.splits)
qed

theorem rent_classification_witness:
  "extract_rent_period_and_type month_doc = (Some ''month'', Some ''rent'')
   \<and> extract_rent_period_and_type week_doc = (Some ''week'', Some ''rent'')
   \<and> extract_rent_period_and_type plain_price_doc = (None, None)
   \<and> extract_rent_period_and_type [] = (None, None)"
proof -
  let ?P = "\<lambda>t. named ''div'' t \<and> class_is ''price-container'' t"
  let ?month = "\<lambda>t. \<exists>a m b. t = a @ m @ b \<and> lower m = ''month''"
  let ?week = "\<lambda>t. \<exists>a m b. t = a @ m @ b \<and> lower m = ''week''"
  have month: "?month t \<longleftrightarrow> contains ''month'' (lower (strip t))" for t
    by (rule contains_lower_strip [symmetric]) (simp_all add: is_space_def code_def)
  have week: "?week t \<longleftrightarrow> contains ''week'' (lower (strip t))" for t
    by (rule contains_lower_strip [symmetric]) (simp_all add: is_space_def code_def)
  have f1: "find ?P month_doc = Some (Tag ''div'' [(''class'', ''price-container'')] [Text ''2,000$/month''])"
    by code_simp
  have f2: "find ?P week_doc = Some (Tag ''div'' [(''class'', ''price-container'')] [Text '' 450 $ / Week ''])"
    by code_simp
  have f3: "find ?P plain_price_doc = Some (Tag ''div'' [(''class'', ''price-container'')] [Text ''2,000$''])"
    by code_simp
  have f4: "find ?P [] = None"
    by (simp add: find_def)
  have m1: "?month ''2,000$/month''"
    unfolding month by code_simp
  have m2: "\<not> ?month '' 450 $ / Week ''"
    unfolding month by code_simp
  have w2: "?week '' 450 $ / Week ''"
    unfolding week by code_simp
  have m3: "\<not> ?month ''2,000$''"
    unfolding month by code_simp
  have w3: "\<not> ?week ''2,000$''"
    unfolding week by code_simp
  show ?thesis
    using rent_classification [of month_doc] rent_classification [of week_doc]
      rent_classification [of plain_price_doc] rent_classification [of "[]"]
      f1 f2 f3 f4 m1 m2 w2 m3 w3
    by simp
qed

section \<open>Digit runs\<close>




















section \<open>The traversal loop\<close>

lemma idle_step:
  assumes "0 < limit"
    and "\<forall>n. \<exists>doc. site n (page_url url (Suc n)) = Some doc \<and> select_links False doc = []"
  shows "loop_body site url limit (idle_state url k) = Continue (idle_state url (Suc k))"
proof -
  obtain doc where "site k (page_url url (Suc k)) = Some doc" and "select_links False doc = []"
    using assms(2) by blast
  then show ?thesis
    by (simp add: loop_body_def fetch_page_def idle_state_def)
qed

lemma never_returns:
  assumes "0 < limit"
    and "\<forall>n. \<exists>doc. site n (page_url url (Suc n)) = Some doc \<and> select_links False doc = []"
  shows "while_loop site url limit (idle_state url k) = None"
proof (rule ccontr)
  assume "while_loop site url limit (idle_state url k) \<noteq> None"
  then obtain y where y: "while_loop site url limit (idle_state url k) = Some y" by blast
  let ?P = "\<lambda>site' url' limit' s (y :: py_error option \<times> run_state).
      \<not> (site' = site \<and> url' = url \<and> limit' = limit \<and> (\<exists>k. s = idle_state url k))"
  have "?P site url limit (idle_state url k) y"
  proof (rule while_loop.raw_induct [where P = ?P, OF _ y])
    fix loop site' url' limit' s and y' :: "py_error option \<times> run_state"
    assume IH: "\<And>site' url' limit' s y. loop site' url' limit' s = Some y \<Longrightarrow> ?P site' url' limit' s y"
      and body: "(if int (length (announcements s)) < limit' then
          (case loop_body site' url' limit' s of
             Continue s' \<Rightarrow> loop site' url' limit' s'
           | Break s' \<Rightarrow> Some (None, s')
           | Raise e s' \<Rightarrow> Some (Some e, s'))
        else Some (None, s)) = Some y'"
    show "?P site' url' limit' s y'"
    proof
      assume a: "site' = site \<and> url' = url \<and> limit' = limit \<and> (\<exists>k. s = idle_state url k)"
      then obtain k where s: "s = idle_state url k" by blast
      have "int (length (announcements s)) < limit"
        using assms(1) by (simp add: s idle_state_def)
      with body a have "loop site url limit (idle_state url (Suc k)) = Some y'"
        by (simp add: s idle_step [where limit = limit and site = site and url = url, OF assms])
      from IH [OF this] show False by blast
    qed
  qed
  then show False by blast
qed

text \<open>
  C2: if the target is positive, no request raises and every index page has no
  links, the run never returns.  It passes through the states \<open>idle_state url k\<close> for
  every \<open>k\<close>: after \<open>k\<close> passes the list is still empty and below the target, \<open>k\<close> index
  pages have been requested, and the next pass requests one more.
\<close>

theorem no_links_never_returns:
  assumes "0 < limit"
    and "\<forall>n. \<exists>doc. site n (page_url url (Suc n)) = Some doc \<and> select_links False doc = []"
  shows "parse_announcements site url limit = None
     \<and> idle_state url 0 = initial_state
     \<and> (\<forall>k. int (length (announcements (idle_state url k))) < limit
            \<and> loop_body site url limit (idle_state url k) = Continue (idle_state url (Suc k))
            \<and> while_loop site url limit (idle_state url k) = None)"
proof -
  have 0: "idle_state url 0 = initial_state"
    by (simp add: idle_state_def initial_state_def)
  have "while_loop site url limit initial_state = None"
    using never_returns [where limit = limit and site = site and url = url and k = 0, OF assms] by (simp add: 0)
  then have "parse_announcements site url limit = None"
    by (simp add: parse_announcements_def)
  moreover have "int (length (announcements (idle_state url k))) < limit" for k
    using assms(1) by (simp add: idle_state_def)
  ultimately show ?thesis
    using 0 idle_step [where limit = limit and site = site and url = url, OF assms] never_returns [where limit = limit and site = site and url = url, OF assms] by blast
qed

theorem no_links_never_returns_witness:
  "parse_announcements empty_site ''https://realtylink.org/en/properties~for-rent?view=Thumbnail&uc=1'' 60 = None"
proof -
  have "\<forall>n. \<exists>doc. empty_site n (page_url ''https://realtylink.org/en/properties~for-rent?view=Thumbnail&uc=1'' (Suc n)) = Some doc
      \<and> select_links False doc = []"
    by (simp add: empty_site_def)
  moreover have "(0::int) < 60" by simp
  ultimately show ?thesis
    using no_links_never_returns [of 60 empty_site] by blast
qed

lemma for_links_append:
  "for_links site limit ls1 s = (None, s2) \<Longrightarrow> int (length (announcements s2)) < limit \<Longrightarrow>
   for_links site limit (ls1 @ ls2) s = for_links site limit ls2 s2"
proof (induction ls1 arbitrary: s)
  case Nil
  then show ?case by simp
next
  case (Cons l ls1)
  show ?case
  proof (cases "limit \<le> int (length (announcements s))")
    case True
    with Cons.prems show ?thesis by simp
  next
    case False
    with Cons.prems Cons.IH show ?thesis
      by (auto split: sum.splits prod.splits)
  qed
qed

lemma for_links_request_error:
  assumes "int (length (announcements s)) < limit" and "item l ''href'' = Inr h"
    and "site (length (fetched s)) (url_prefix @ h) = None"
  shows "for_links site limit (l # ls) s =
     (Some RequestException, s\<lparr>fetched := fetched s @ [url_prefix @ h]\<rparr>)"
  using assms by (simp add: parse_announcement_def fetch_page_def)

lemma loop_body_raise: "loop_body site url limit s = Raise e s' \<Longrightarrow> e \<noteq> RequestException"
  by (auto simp: loop_body_def split: prod.splits sum.splits option.splits if_splits)

lemma while_loop_no_request_error:
  assumes y: "while_loop site url limit s = Some y"
  shows "fst y \<noteq> Some RequestException"
proof (rule while_loop.raw_induct
    [where P = "\<lambda>site' url' limit' s (y :: py_error option \<times> run_state). fst y \<noteq> Some RequestException",
      OF _ y])
  fix loop site' url' limit' s and y' :: "py_error option \<times> run_state"
  assume IH: "\<And>site' url' limit' s y. loop site' url' limit' s = Some y \<Longrightarrow> fst y \<noteq> Some RequestException"
    and body: "(if int (length (announcements s)) < limit' then
          (case loop_body site' url' limit' s of
             Continue s' \<Rightarrow> loop site' url' limit' s'
           | Break s' \<Rightarrow> Some (None, s')
           | Raise e s' \<Rightarrow> Some (Some e, s'))
        else Some (None, s)) = Some y'"
  show "fst y' \<noteq> Some RequestException"
  proof (cases "int (length (announcements s)) < limit'")
    case False
    with body show ?thesis by auto
  next
    case True
    show ?thesis
    proof (cases "loop_body site' url' limit' s")
      case (Continue s1)
      with body True have "loop site' url' limit' s1 = Some y'" by simp
      then show ?thesis by (rule IH)
    next
      case (Break s1)
      with body True show ?thesis by auto
    next
      case (Raise e s1)
      with body True loop_body_raise [OF Raise] show ?thesis by auto
    qed
  qed
qed

text \<open>
  C4: a request that raises ends the run, which returns what was collected up to
  then.  From any state in which the loop goes on: if the request for the index page
  raises, the loop returns normally with the list unchanged; if the request for the
  page of a link raises after the links before it were processed, the loop returns
  normally with the list as it stood after those links.  A \<open>RequestException\<close> never
  leaves \<open>parse_announcements\<close>.
\<close>

theorem request_error_keeps_records:
  "(int (length (announcements s)) < limit
      \<and> site (length (fetched s)) (page_url url (page_count s + 1)) = None \<longrightarrow>
      while_loop site url limit s =
        Some (None, s\<lparr>page_count := page_count s + 1,
                       fetched := fetched s @ [page_url url (page_count s + 1)]\<rparr>))
   \<and> (int (length (announcements s)) < limit
      \<and> site (length (fetched s)) (page_url url (page_count s + 1)) = Some doc
      \<and> select_links False doc = ls1 @ l # ls2
      \<and> for_links site limit ls1
           (s\<lparr>page_count := page_count s + 1,
              fetched := fetched s @ [page_url url (page_count s + 1)]\<rparr>) = (None, s2)
      \<and> int (length (announcements s2)) < limit
      \<and> item l ''href'' = Inr h
      \<and> site (length (fetched s2)) (url_prefix @ h) = None \<longrightarrow>
      while_loop site url limit s = Some (None, s2\<lparr>fetched := fetched s2 @ [url_prefix @ h]\<rparr>))
   \<and> while_loop site url limit s \<noteq> Some (Some RequestException, s')
   \<and> parse_announcements site url limit \<noteq> Some (Inl RequestException, s')"
proof (intro conjI impI)
  assume a: "int (length (announcements s)) < limit
      \<and> site (length (fetched s)) (page_url url (page_count s + 1)) = None"
  then have "loop_body site url limit s =
      Break (s\<lparr>page_count := page_count s + 1,
               fetched := fetched s @ [page_url url (page_count s + 1)]\<rparr>)"
    by (simp add: loop_body_def fetch_page_def)
  with a show "while_loop site url limit s =
      Some (None, s\<lparr>page_count := page_count s + 1,
                     fetched := fetched s @ [page_url url (page_count s + 1)]\<rparr>)"
    by (subst while_loop.simps) simp
next
  let ?s1 = "s\<lparr>page_count := page_count s + 1,
               fetched := fetched s @ [page_url url (page_count s + 1)]\<rparr>"
  assume a: "int (length (announcements s)) < limit
      \<and> site (length (fetched s)) (page_url url (page_count s + 1)) = Some doc
      \<and> select_links False doc = ls1 @ l # ls2
      \<and> for_links site limit ls1 ?s1 = (None, s2)
      \<and> int (length (announcements s2)) < limit
      \<and> item l ''href'' = Inr h
      \<and> site (length (fetched s2)) (url_prefix @ h) = None"
  then have "for_links site limit (ls1 @ l # ls2) ?s1 = for_links site limit (l # ls2) s2"
    by (intro for_links_append) simp_all
  also have "\<dots> = (Some RequestException, s2\<lparr>fetched := fetched s2 @ [url_prefix @ h]\<rparr>)"
    using a by (intro for_links_request_error) simp_all
  finally have "loop_body site url limit s = Break (s2\<lparr>fetched := fetched s2 @ [url_prefix @ h]\<rparr>)"
    using a by (simp add: loop_body_def fetch_page_def)
  with a show "while_loop site url limit s = Some (None, s2\<lparr>fetched := fetched s2 @ [url_prefix @ h]\<rparr>)"
    by (subst while_loop.simps) simp
next
  show "while_loop site url limit s \<noteq> Some (Some RequestException, s')"
    using while_loop_no_request_error [of site url limit s "(Some RequestException, s')"] by auto
next
  show "parse_announcements site url limit \<noteq> Some (Inl RequestException, s')"
    using while_loop_no_request_error [of site url limit initial_state]
    by (auto simp: parse_announcements_def split: option.splits prod.splits)
qed

theorem request_error_keeps_records_witness:
  "while_loop five_site ''base'' 60 after_five =
     Some (None, after_five\<lparr>page_count := 2, fetched := fetched after_five @ [''base&page=2'']\<rparr>)
   \<and> parse_announcements five_site ''base'' 60 =
     Some (Inr five_records,
           after_five\<lparr>page_count := 2, fetched := fetched after_five @ [''base&page=2'']\<rparr>)
   \<and> parse_announcements broken_detail_site ''base'' 60 =
     Some (Inr [blank_record (url_prefix @ ''/a'')],
           after_one\<lparr>fetched := fetched after_one @ [url_prefix @ ''/b'']\<rparr>)"
proof -
  have p1: "page_url ''base'' 1 = ''base&page=1''" and p2: "page_url ''base'' 2 = ''base&page=2''"
    by code_simp+
  have p2': "page_url ''base'' (Suc (Suc 0)) = ''base&page=2''"
    using p2 by (simp add: numeral_2_eq_2)
  have a: "int (length (announcements after_five)) < 60"
    by (simp add: after_five_def five_records_def)
  have b: "five_site (length (fetched after_five)) (page_url ''base'' (page_count after_five + 1)) = None"
    by (simp add: after_five_def five_site_def)
  have 1: "while_loop five_site ''base'' 60 after_five =
     Some (None, after_five\<lparr>page_count := 2, fetched := fetched after_five @ [''base&page=2'']\<rparr>)"
    using request_error_keeps_records [of after_five 60 five_site "''base''"] a b
    by (simp add: p2' after_five_def)
  have lb: "loop_body five_site ''base'' 60 initial_state = Continue after_five"
    by code_simp
  have "while_loop five_site ''base'' 60 initial_state = while_loop five_site ''base'' 60 after_five"
    by (subst while_loop.simps) (simp add: lb, simp add: initial_state_def)
  with 1 have 2: "parse_announcements five_site ''base'' 60 =
     Some (Inr five_records,
           after_five\<lparr>page_count := 2, fetched := fetched after_five @ [''base&page=2'']\<rparr>)"
    by (simp add: parse_announcements_def after_five_def)
  have c: "int (length (announcements initial_state)) < 60"
    by (simp add: initial_state_def)
  have d: "broken_detail_site (length (fetched initial_state)) (page_url ''base'' (page_count initial_state + 1))
      = Some (index_page [''/a'', ''/b'', ''/c''])"
    by (simp add: initial_state_def broken_detail_site_def)
  have e: "select_links False (index_page [''/a'', ''/b'', ''/c'']) =
      [link_tag ''/a''] @ link_tag ''/b'' # [link_tag ''/c'']"
    by code_simp
  have f: "for_links broken_detail_site 60 [link_tag ''/a'']
      (initial_state\<lparr>page_count := page_count initial_state + 1,
         fetched := fetched initial_state @ [page_url ''base'' (page_count initial_state + 1)]\<rparr>)
      = (None, after_one)"
    by code_simp
  have g: "int (length (announcements after_one)) < 60"
    by (simp add: after_one_def)
  have h: "item (link_tag ''/b'') ''href'' = Inr ''/b''"
    by (simp add: item_def link_tag_def)
  have i: "broken_detail_site (length (fetched after_one)) (url_prefix @ ''/b'') = None"
    by (simp add: after_one_def broken_detail_site_def)
  have "while_loop broken_detail_site ''base'' 60 initial_state =
      Some (None, after_one\<lparr>fetched := fetched after_one @ [url_prefix @ ''/b'']\<rparr>)"
    using request_error_keeps_records [of initial_state 60 broken_detail_site "''base''"
        "index_page [''/a'', ''/b'', ''/c'']" "[link_tag ''/a'']" "link_tag ''/b''"
        "[link_tag ''/c'']" after_one "''/b''"]
      c d e f g h i
    by blast
  then have 3: "parse_announcements broken_detail_site ''base'' 60 =
     Some (Inr [blank_record (url_prefix @ ''/a'')],
           after_one\<lparr>fetched := fetched after_one @ [url_prefix @ ''/b'']\<rparr>)"
    by (simp add: parse_announcements_def after_one_def)
  from 1 2 3 show ?thesis by blast
qed

text \<open>
  C5: with three links on the first index page and a target of two, and the first
  two listing pages fetched and extracted without an exception, the run requests the
  index page and those two pages and nothing else, and returns the two records.  In
  general the \<open>for\<close> loop does nothing more once the list has reached the target.
\<close>

theorem limit_stops_scanning:
  "(site 0 (page_url url 1) = Some doc
      \<and> select_links False doc = [l1, l2, l3]
      \<and> item l1 ''href'' = Inr h1 \<and> item l2 ''href'' = Inr h2
      \<and> site 1 (url_prefix @ h1) = Some d1 \<and> site 2 (url_prefix @ h2) = Some d2
      \<and> build_announcement (url_prefix @ h1) d1 = Inr a1
      \<and> build_announcement (url_prefix @ h2) d2 = Inr a2 \<longrightarrow>
      parse_announcements site url 2 =
        Some (Inr [a1, a2],
              \<lparr> announcements = [a1, a2], page_count = 1, parsed_announcements = 2,
                fetched = [page_url url 1, url_prefix @ h1, url_prefix @ h2], slept = 1 \<rparr>))
   \<and> (limit \<le> int (length (announcements s)) \<longrightarrow> for_links site limit ls s = (None, s))"
proof (intro conjI impI)
  show "for_links site limit ls s = (None, s)" if "limit \<le> int (length (announcements s))"
    using that by (cases ls) simp_all
next
  let ?final = "\<lparr> announcements = [a1, a2], page_count = 1, parsed_announcements = 2,
                fetched = [page_url url 1, url_prefix @ h1, url_prefix @ h2], slept = 1 \<rparr>"
  assume a: "site 0 (page_url url 1) = Some doc
      \<and> select_links False doc = [l1, l2, l3]
      \<and> item l1 ''href'' = Inr h1 \<and> item l2 ''href'' = Inr h2
      \<and> site 1 (url_prefix @ h1) = Some d1 \<and> site 2 (url_prefix @ h2) = Some d2
      \<and> build_announcement (url_prefix @ h1) d1 = Inr a1
      \<and> build_announcement (url_prefix @ h2) d2 = Inr a2"
  then have "site (Suc (Suc 0)) (url_prefix @ h2) = Some d2"
    by (simp add: numeral_2_eq_2)
  with a have lb: "loop_body site url 2 initial_state = Continue ?final"
    by (simp add: loop_body_def fetch_page_def parse_announcement_def initial_state_def)
  have "while_loop site url 2 initial_state = while_loop site url 2 ?final"
    by (subst while_loop.simps) (simp add: lb, simp add: initial_state_def)
  also have "\<dots> = Some (None, ?final)"
    by (subst while_loop.simps) simp
  finally show "parse_announcements site url 2 = Some (Inr [a1, a2], ?final)"
    by (simp add: parse_announcements_def)
qed

theorem limit_stops_scanning_witness:
  "parse_announcements three_site ''base'' 2 =
     Some (Inr [blank_record (url_prefix @ ''/a''), blank_record (url_prefix @ ''/b'')],
           \<lparr> announcements = [blank_record (url_prefix @ ''/a''), blank_record (url_prefix @ ''/b'')],
             page_count = 1, parsed_announcements = 2,
             fetched = [''base&page=1'', url_prefix @ ''/a'', url_prefix @ ''/b''], slept = 1 \<rparr>)
   \<and> for_links three_site 5 [link_tag ''/c''] after_five = (None, after_five)"
proof -
  have full: "(5::int) \<le> int (length (announcements after_five))"
    by (simp add: after_five_def five_records_def)
  have stop: "for_links three_site 5 [link_tag ''/c''] after_five = (None, after_five)"
    using limit_stops_scanning
        [where site = three_site and limit = 5 and s = after_five and ls = "[link_tag ''/c'']"] full
    by blast
  have p1: "page_url ''base'' 1 = ''base&page=1''"
    by code_simp
  have p1': "page_url ''base'' (Suc 0) = ''base&page=1''"
    using p1 by simp
  have a: "three_site 0 (page_url ''base'' 1) = Some (index_page [''/a'', ''/b'', ''/c''])"
    by (simp add: three_site_def)
  have b: "select_links False (index_page [''/a'', ''/b'', ''/c'']) =
      [link_tag ''/a'', link_tag ''/b'', link_tag ''/c'']"
    by code_simp
  have c: "item (link_tag ''/a'') ''href'' = Inr ''/a''" "item (link_tag ''/b'') ''href'' = Inr ''/b''"
    by (simp_all add: item_def link_tag_def)
  have d: "three_site 1 (url_prefix @ ''/a'') = Some []" "three_site 2 (url_prefix @ ''/b'') = Some []"
    by (simp_all add: three_site_def)
  have e: "build_announcement (url_prefix @ ''/a'') [] = Inr (blank_record (url_prefix @ ''/a''))"
    "build_announcement (url_prefix @ ''/b'') [] = Inr (blank_record (url_prefix @ ''/b''))"
    by code_simp+
  show ?thesis
    using limit_stops_scanning [of three_site "''base''" "index_page [''/a'', ''/b'', ''/c'']"
        "link_tag ''/a''" "link_tag ''/b''" "link_tag ''/c''" "''/a''" "''/b''" "[]" "[]"
        "blank_record (url_prefix @ ''/a'')" "blank_record (url_prefix @ ''/b'')"]
      a b c d e stop
    by (simp add: p1')
qed

section \<open>The floor area\<close>


lemma comma_not_word: "\<not> is_word (CHR '','')" and comma_not_digit: "\<not> is_digit (CHR '','')"
  by (simp_all add: is_word_def is_digit_def code_def)















text \<open>
  C1 fails on the code.  When the value under \<open>Floor Area\<close> is all digits, the lookup
  returns an integer, \<open>normalize_floor_area\<close> hands it to \<open>re.search\<close>, and the
  \<open>TypeError\<close> leaves \<open>parse_announcement\<close> and, not being a \<open>RequestException\<close>,
  \<open>parse_announcements\<close> as well: no record is produced.  An array literal that is
  not JSON raises \<open>JSONDecodeError\<close> in the same way, and a price tag without a
  \<open>content\<close> attribute raises \<open>KeyError\<close>.
\<close>

theorem floor_area_integer_raises:
  "extract_value_by_title (area_doc ''850'') ''Floor Area'' = PyInt 850
   \<and> normalize_floor_area (PyInt 850) = Inl TypeError
   \<and> build_announcement (url_prefix @ ''/a'') (area_doc ''850'') = Inl TypeError
   \<and> parse_announcements numeric_area_site ''base'' 60 =
       Some (Inl TypeError,
             \<lparr> announcements = [], page_count = 1, parsed_announcements = 0,
               fetched = [''base&page=1'', url_prefix @ ''/a''], slept = 0 \<rparr>)
   \<and> extract_image_urls bad_photos_doc = Inl JSONDecodeError
   \<and> build_announcement (url_prefix @ ''/a'') bad_photos_doc = Inl JSONDecodeError
   \<and> build_announcement (url_prefix @ ''/a'') bare_price_doc = Inl KeyError"
proof -
  have 1: "extract_value_by_title (area_doc ''850'') ''Floor Area'' = PyInt 850"
    by code_simp
  have 2: "normalize_floor_area (PyInt 850) = Inl TypeError"
    by (simp add: normalize_floor_area_def)
  have 3: "build_announcement (url_prefix @ ''/a'') (area_doc ''850'') = Inl TypeError"
    by code_simp
  have lb: "loop_body numeric_area_site ''base'' 60 initial_state =
      Raise TypeError \<lparr> announcements = [], page_count = 1, parsed_announcements = 0,
               fetched = [''base&page=1'', url_prefix @ ''/a''], slept = 0 \<rparr>"
    by code_simp
  have "while_loop numeric_area_site ''base'' 60 initial_state =
      Some (Some TypeError, \<lparr> announcements = [], page_count = 1, parsed_announcements = 0,
               fetched = [''base&page=1'', url_prefix @ ''/a''], slept = 0 \<rparr>)"
    by (subst while_loop.simps) (simp add: lb, simp add: initial_state_def)
  then have 4: "parse_announcements numeric_area_site ''base'' 60 =
       Some (Inl TypeError,
             \<lparr> announcements = [], page_count = 1, parsed_announcements = 0,
               fetched = [''base&page=1'', url_prefix @ ''/a''], slept = 0 \<rparr>)"
    by (simp add: parse_announcements_def)
  have 5: "extract_image_urls bad_photos_doc = Inl JSONDecodeError"
    by code_simp
  have 6: "build_announcement (url_prefix @ ''/a'') bad_photos_doc = Inl JSONDecodeError"
    by code_simp
  have 7: "build_announcement (url_prefix @ ''/a'') bare_price_doc = Inl KeyError"
    by code_simp
  from 1 2 3 4 5 6 7 show ?thesis by blast
qed

section \<open>The photo addresses\<close>















lemma lazy_dot_Nil: "matches (LazyStar Dot) (p, []) = [(p, [])]"
  by (subst matches.simps(5)) simp










end
